theory Spec2Isabelle
  imports Main
begin

section \<open>Data model of the chat page\<close>

text \<open>
  The page component \<open>Chat\<close> keeps four pieces of React state: the draft text
  \<open>query\<close>, the flag \<open>loading\<close>, the list \<open>messages\<close> and \<open>assistantType\<close>.
  A \<open>Message\<close> is a pair of strings. The TypeScript type \<open>AssistantType\<close> is the
  union \<open>'general' | 'financial'\<close>, but \<open>handleAssistantChange\<close> stores any string it
  is handed (the cast \<open>value as AssistantType\<close> checks nothing at run time), so the
  field is a string here.
\<close>

type_synonym AssistantType = string

record Message =
  query :: string
  response :: string

record User =
  uid :: string

text \<open>The object handed to \<open>supabase.from('ai_queries').insert\<close>.\<close>

record Row =
  user_id :: string
  row_query :: string
  row_response :: string
  assistant_type :: AssistantType

text \<open>
  What the component does to the outside world, in the order it does it: the two
  \<open>console.error\<close> calls, the destructive toast, the request sent by \<open>fetch\<close>
  (endpoint and the \<open>query\<close> of the JSON body), the row handed to the insert, the
  scheduled \<open>scrollToBottom\<close> and the focus call on the input.
\<close>

datatype Effect =
    ConsoleError
  | Toast
  | Request string string
  | InsertRow Row
  | ScrollLater
  | FocusInput

text \<open>
  The React state is the first four fields (\<open>query_st\<close> is the state variable
  \<open>query\<close>, renamed because \<open>Message\<close> has a field of that name); \<open>effects\<close>
  is the log of what has been emitted so far.
\<close>

record Chat =
  query_st :: string
  loading :: bool
  messages :: "Message list"
  assistantType :: AssistantType
  effects :: "Effect list"

definition initial :: Chat where
  "initial = \<lparr>query_st = [], loading = False, messages = [],
     assistantType = ''general'', effects = []\<rparr>"

subsection \<open>State setters and statement lists\<close>

definition setQuery :: "string \<Rightarrow> Chat \<Rightarrow> Chat" where
  "setQuery q s = s\<lparr>query_st := q\<rparr>"

definition setLoading :: "bool \<Rightarrow> Chat \<Rightarrow> Chat" where
  "setLoading b s = s\<lparr>loading := b\<rparr>"

definition setMessages :: "Message list \<Rightarrow> Chat \<Rightarrow> Chat" where
  "setMessages ms s = s\<lparr>messages := ms\<rparr>"

definition setAssistantType :: "AssistantType \<Rightarrow> Chat \<Rightarrow> Chat" where
  "setAssistantType a s = s\<lparr>assistantType := a\<rparr>"

definition emit :: "Effect \<Rightarrow> Chat \<Rightarrow> Chat" where
  "emit e s = s\<lparr>effects := effects s @ [e]\<rparr>"

text \<open>
  A stretch of code is a list of statements, each a state transformer. \<open>exec\<close>
  runs them in order; \<open>visited\<close> lists the state after each statement, which is
  every state a render can observe however the setter calls are batched.
\<close>

fun exec :: "(Chat \<Rightarrow> Chat) list \<Rightarrow> Chat \<Rightarrow> Chat" where
  "exec [] s = s"
| "exec (f # fs) s = exec fs (f s)"

fun visited :: "(Chat \<Rightarrow> Chat) list \<Rightarrow> Chat \<Rightarrow> Chat list" where
  "visited [] s = []"
| "visited (f # fs) s = f s # visited fs (f s)"

definition notifications :: "Chat \<Rightarrow> nat" where
  "notifications s = count_list (effects s) Toast"

section \<open>String trimming\<close>

text \<open>
  \<open>String.prototype.trim\<close> strips white space and line terminators from both ends.
  Of those, the characters an 8-bit \<open>char\<close> can hold are TAB, LF, VT, FF, CR, SPACE
  and NBSP.
\<close>

definition isWhiteSpace :: "char \<Rightarrow> bool" where
  "isWhiteSpace c = (c \<in> set [CHR 0x09, CHR 0x0A, CHR 0x0B, CHR 0x0C, CHR 0x0D, CHR 0x20, CHR 0xA0])"

definition trim :: "string \<Rightarrow> string" where
  "trim s = rev (dropWhile isWhiteSpace (rev (dropWhile isWhiteSpace s)))"

section \<open>The gateway call: \<open>callChatAPI\<close>\<close>

text \<open>
  What \<open>fetch\<close> and \<open>response.json()\<close> can deliver. \<open>fetch\<close> rejects
  (\<open>NetworkError\<close>) or resolves with a status and a body. The body fails to parse,
  parses to \<open>null\<close>, or parses to a value whose property \<open>response\<close> reads as
  \<open>undefined\<close> (absent), \<open>null\<close> or a string; the server's contract and the
  function's declared result, a promise of a string, leave no other kind of value.
\<close>

datatype JsValue = Undefined | Null | Str string

datatype Body = InvalidJson | JsonNull | JsonObject JsValue

datatype FetchResult = NetworkError | HttpResponse nat Body

datatype exn = FetchFailed | ApiError nat | SyntaxError | TypeError | InsertError

definition ok :: "nat \<Rightarrow> bool" where
  "ok status = (200 \<le> status \<and> status \<le> 299)"

definition endpoint :: "AssistantType \<Rightarrow> string" where
  "endpoint a = (if a = ''general''
     then ''https://investo-server-dlii.onrender.com/chat''
     else ''https://investo-server-dlii.onrender.com/agent'')"

definition couldnt_process :: string where
  "couldnt_process = ''Sorry, I couldn't process your request.''"

definition connect_error :: string where
  "connect_error =
     ''Sorry, there was an error connecting to the assistant. Please try again later.''"

text \<open>The call of \<open>fetch\<close>: the prompt and the mode decide the request, nothing else.\<close>

definition callChatAPI_request :: "AssistantType \<Rightarrow> string \<Rightarrow> Effect" where
  "callChatAPI_request a prompt = Request (endpoint a) prompt"

text \<open>\<open>data.response || "Sorry, I couldn't process your request."\<close>\<close>

fun or_default :: "JsValue \<Rightarrow> string" where
  "or_default (Str t) = (if t = [] then couldnt_process else t)"
| "or_default Undefined = couldnt_process"
| "or_default Null = couldnt_process"

text \<open>
  The rest of the \<open>try\<close> block, given what \<open>fetch\<close> delivered: \<open>Inl\<close> is what
  it throws. Reading \<open>.response\<close> of \<open>null\<close> is a TypeError.
\<close>

definition callChatAPI_try :: "FetchResult \<Rightarrow> exn + string" where
  "callChatAPI_try result =
     (case result of
        NetworkError \<Rightarrow> Inl FetchFailed
      | HttpResponse status body \<Rightarrow>
          if \<not> ok status then Inl (ApiError status)
          else (case body of
                  InvalidJson \<Rightarrow> Inl SyntaxError
                | JsonNull \<Rightarrow> Inl TypeError
                | JsonObject v \<Rightarrow> Inr (or_default v)))"

text \<open>
  The whole function, as the promise it returns settles: \<open>Inl\<close> would be a
  rejection, \<open>Inr\<close> the resolved text; the second component is what it logs.
\<close>

definition callChatAPI :: "FetchResult \<Rightarrow> (exn + string) \<times> Effect list" where
  "callChatAPI result =
     (case callChatAPI_try result of
        Inl e \<Rightarrow> (Inr connect_error, [ConsoleError])
      | Inr t \<Rightarrow> (Inr t, []))"

section \<open>Submission: \<open>handleSubmit\<close>\<close>

text \<open>
  \<open>handleSubmit\<close> reads \<open>messages\<close>, \<open>loading\<close>, \<open>user\<close> and (through
  \<open>callChatAPI\<close>) \<open>assistantType\<close> from the render that created it: the snapshot
  \<open>r\<close>. The guard is \<open>!promptText.trim() || !user || loading\<close>.
\<close>

definition rejected :: "Chat \<Rightarrow> User option \<Rightarrow> string \<Rightarrow> bool" where
  "rejected r u promptText = (trim promptText = [] \<or> u = None \<or> loading r)"

definition handleSubmit_catch :: "Chat \<Rightarrow> (Chat \<Rightarrow> Chat) list" where
  "handleSubmit_catch r = [emit ConsoleError, emit Toast, setMessages (messages r)]"

definition handleSubmit_finally :: "(Chat \<Rightarrow> Chat) list" where
  "handleSubmit_finally = [setLoading False, emit FocusInput]"

text \<open>From the guard to the first \<open>await\<close>: the request is on its way.\<close>

definition handleSubmit_start :: "Chat \<Rightarrow> string \<Rightarrow> (Chat \<Rightarrow> Chat) list" where
  "handleSubmit_start r promptText =
     [setLoading True,
      setMessages (messages r @ [\<lparr>query = trim promptText, response = ''...''\<rparr>]),
      setQuery [],
      emit (callChatAPI_request (assistantType r) (trim promptText))]"

definition row :: "Chat \<Rightarrow> User \<Rightarrow> string \<Rightarrow> string \<Rightarrow> Row" where
  "row r usr promptText aiResponse =
     \<lparr>user_id = uid usr, row_query = trim promptText,
      row_response = aiResponse, assistant_type = assistantType r\<rparr>"

text \<open>From the settling of \<open>callChatAPI\<close> to the second \<open>await\<close>.\<close>

definition handleSubmit_afterChat ::
  "Chat \<Rightarrow> User \<Rightarrow> string \<Rightarrow> (exn + string) \<times> Effect list \<Rightarrow> (Chat \<Rightarrow> Chat) list" where
  "handleSubmit_afterChat r usr promptText res =
     map emit (snd res) @
     (case fst res of
        Inl e \<Rightarrow> handleSubmit_catch r @ handleSubmit_finally
      | Inr aiResponse \<Rightarrow>
          [setMessages (messages r @ [\<lparr>query = trim promptText, response = aiResponse\<rparr>]),
           emit (InsertRow (row r usr promptText aiResponse))])"

text \<open>From the settling of the insert (\<open>error\<close> null or not) to the end.\<close>

definition handleSubmit_afterInsert :: "Chat \<Rightarrow> exn option \<Rightarrow> (Chat \<Rightarrow> Chat) list" where
  "handleSubmit_afterInsert r error =
     (case error of
        Some e \<Rightarrow> handleSubmit_catch r @ handleSubmit_finally
      | None \<Rightarrow> emit ScrollLater # handleSubmit_finally)"

text \<open>
  One whole call. It sends one request and at most one row, so the outside world
  is what \<open>fetch\<close> delivers, what the insert reports in \<open>error\<close>, and the identity
  \<open>useAuth\<close> gives.
\<close>

record Env =
  gateway :: FetchResult
  persistence :: "exn option"
  user :: "User option"

definition handleSubmit_stmts :: "Env \<Rightarrow> Chat \<Rightarrow> string \<Rightarrow> (Chat \<Rightarrow> Chat) list" where
  "handleSubmit_stmts env r promptText =
     (if rejected r (user env) promptText then []
      else case user env of
        None \<Rightarrow> []
      | Some usr \<Rightarrow>
          let res = callChatAPI (gateway env)
          in handleSubmit_start r promptText @
             handleSubmit_afterChat r usr promptText res @
             (case fst res of
                Inl e \<Rightarrow> []
              | Inr aiResponse \<Rightarrow> handleSubmit_afterInsert r (persistence env)))"

definition handleSubmit :: "Env \<Rightarrow> string \<Rightarrow> Chat \<Rightarrow> Chat" where
  "handleSubmit env promptText s = exec (handleSubmit_stmts env s promptText) s"

section \<open>Mode switch: \<open>handleAssistantChange\<close>\<close>

definition handleAssistantChange :: "string \<Rightarrow> Chat \<Rightarrow> Chat" where
  "handleAssistantChange v s = setAssistantType v s"

section \<open>The page as an event system\<close>

text \<open>
  Between the two \<open>await\<close>s of a submission the page keeps handling events. A
  submission in flight is the continuation of its \<open>handleSubmit\<close> call: the
  snapshot it closed over and where it waits. An event handler sees the state of
  the latest render, so a \<open>Submit\<close> takes the current state as its snapshot.
  \<open>ChatSettled i\<close> and \<open>InsertSettled i\<close> settle the promise the \<open>i\<close>-th
  submission in flight waits for; no promise, no event.
\<close>

datatype Flight = AwaitingChat Chat User string | AwaitingInsert Chat

datatype Event =
    Submit "User option" string
  | ChangeQuery string
  | ChangeAssistant string
  | ChatSettled nat FetchResult
  | InsertSettled nat "exn option"

type_synonym Config = "Chat \<times> Flight list"

definition drop_nth :: "nat \<Rightarrow> 'a list \<Rightarrow> 'a list" where
  "drop_nth i xs = take i xs @ drop (Suc i) xs"

text \<open>The statements an event runs, and the submissions in flight afterwards.\<close>

fun react :: "Event \<Rightarrow> Config \<Rightarrow> (Chat \<Rightarrow> Chat) list \<times> Flight list" where
  "react (Submit u promptText) (s, fls) =
     (if rejected s u promptText then ([], fls)
      else case u of
        None \<Rightarrow> ([], fls)
      | Some usr \<Rightarrow> (handleSubmit_start s promptText, fls @ [AwaitingChat s usr promptText]))"
| "react (ChangeQuery q) (s, fls) = ([setQuery q], fls)"
| "react (ChangeAssistant v) (s, fls) = ([handleAssistantChange v], fls)"
| "react (ChatSettled i result) (s, fls) =
     (if i < length fls then
        (case fls ! i of
           AwaitingChat r usr promptText \<Rightarrow>
             let res = callChatAPI result
             in (handleSubmit_afterChat r usr promptText res,
                 case fst res of
                   Inl e \<Rightarrow> drop_nth i fls
                 | Inr aiResponse \<Rightarrow> fls[i := AwaitingInsert r])
         | AwaitingInsert r \<Rightarrow> ([], fls))
      else ([], fls))"
| "react (InsertSettled i error) (s, fls) =
     (if i < length fls then
        (case fls ! i of
           AwaitingInsert r \<Rightarrow> (handleSubmit_afterInsert r error, drop_nth i fls)
         | AwaitingChat r usr promptText \<Rightarrow> ([], fls))
      else ([], fls))"

definition step :: "Event \<Rightarrow> Config \<Rightarrow> Config" where
  "step e c = (exec (fst (react e c)) (fst c), snd (react e c))"

fun run :: "Event list \<Rightarrow> Config \<Rightarrow> Config" where
  "run [] c = c"
| "run (e # es) c = run es (step e c)"

text \<open>Every state the page goes through, statement by statement.\<close>

fun observed :: "Event list \<Rightarrow> Config \<Rightarrow> Chat list" where
  "observed [] c = [fst c]"
| "observed (e # es) c = fst c # visited (fst (react e c)) (fst c) @ observed es (step e c)"

definition pending :: "Message \<Rightarrow> bool" where
  "pending m = (response m = ''...'')"

text \<open>An event that hands the page the text \<open>...\<close> as the gateway's answer.\<close>

fun answers_dots :: "Event \<Rightarrow> bool" where
  "answers_dots (ChatSettled i result) = (fst (callChatAPI result) = Inr ''...'')"
| "answers_dots e = False"

text \<open>
  The invariant of the event system, at the points where events arrive: either
  nothing is in flight, \<open>loading\<close> is false and no Exchange is pending; or one
  submission is in flight, \<open>loading\<close> is true, the conversation it closed over has
  no pending Exchange, and once it waits for the insert neither has the displayed
  one.
\<close>

definition quiet :: "Message list \<Rightarrow> bool" where
  "quiet ms = (\<not> list_ex pending ms)"

fun flight_ok :: "Chat \<Rightarrow> Flight \<Rightarrow> bool" where
  "flight_ok s (AwaitingChat r usr promptText) = quiet (messages r)"
| "flight_ok s (AwaitingInsert r) = (quiet (messages r) \<and> quiet (messages s))"

definition inv :: "Config \<Rightarrow> bool" where
  "inv c = ((snd c = [] \<and> \<not> loading (fst c) \<and> quiet (messages (fst c))) \<or>
            (\<exists>f. snd c = [f] \<and> loading (fst c) \<and> flight_ok (fst c) f))"

section \<open>Properties\<close>

lemmas setter_defs = setQuery_def setLoading_def setMessages_def setAssistantType_def emit_def

lemmas submit_defs = handleSubmit_def handleSubmit_stmts_def handleSubmit_start_def
  handleSubmit_afterChat_def handleSubmit_afterInsert_def handleSubmit_catch_def
  handleSubmit_finally_def callChatAPI_request_def row_def

lemmas gateway_defs = callChatAPI_def callChatAPI_try_def connect_error_def
  couldnt_process_def

lemmas trim_defs = trim_def isWhiteSpace_def

lemma callChatAPI_cases:
  obtains t where "callChatAPI result = (Inr t, [])"
        | t where "callChatAPI result = (Inr t, [ConsoleError])"
  by (cases "callChatAPI_try result") (auto simp: callChatAPI_def)

text \<open>
  One call of \<open>handleSubmit\<close> with nothing else going on is the event system run
  on the submission and the settling of its two promises.
\<close>

lemma handleSubmit_as_events:
  "handleSubmit env promptText s =
     fst (run [Submit (user env) promptText, ChatSettled 0 (gateway env),
               InsertSettled 0 (persistence env)] (s, []))"
  by (cases rule: callChatAPI_cases [of "gateway env"])
     (auto simp: step_def submit_defs setter_defs drop_nth_def split: option.splits)

subsection \<open>The gateway call\<close>

text \<open>
  C2. \<open>callChatAPI\<close> never throws to its caller: whatever \<open>fetch\<close> delivers, the
  promise resolves with a text; and when \<open>fetch\<close> rejects or the status is not 2xx,
  that text is the fixed sentence about the connection.
\<close>

theorem callChatAPI_never_throws:
  "(\<exists>t. fst (callChatAPI result) = Inr t) \<and>
   (result = NetworkError \<or> (\<exists>status body. result = HttpResponse status body \<and> \<not> ok status) \<longrightarrow>
     fst (callChatAPI result) =
       Inr ''Sorry, there was an error connecting to the assistant. Please try again later.'')"
  by (auto simp: gateway_defs split: sum.splits FetchResult.splits Body.splits)

theorem callChatAPI_never_throws_witness:
  "\<not> ok 500 \<and>
   fst (callChatAPI (HttpResponse 500 (JsonObject (Str ''Bullish'')))) =
     Inr ''Sorry, there was an error connecting to the assistant. Please try again later.'' \<and>
   fst (callChatAPI NetworkError) =
     Inr ''Sorry, there was an error connecting to the assistant. Please try again later.''"
  using callChatAPI_never_throws [of "HttpResponse 500 (JsonObject (Str ''Bullish''))"]
    callChatAPI_never_throws [of NetworkError]
  by (simp add: ok_def)

text \<open>
  C9. With a 2xx status and a body whose \<open>response\<close> is absent, \<open>null\<close> or the
  empty string, \<open>callChatAPI\<close> resolves with the other fixed sentence, logging
  nothing.
\<close>

theorem callChatAPI_empty_response:
  assumes "ok status" and "v = Undefined \<or> v = Null \<or> v = Str []"
  shows "callChatAPI (HttpResponse status (JsonObject v)) =
    (Inr ''Sorry, I couldn't process your request.'', [])"
  using assms by (auto simp: gateway_defs)

theorem callChatAPI_empty_response_witness:
  "ok 200 \<and>
   callChatAPI (HttpResponse 200 (JsonObject (Str []))) =
     (Inr ''Sorry, I couldn't process your request.'', []) \<and>
   callChatAPI (HttpResponse 200 (JsonObject Undefined)) =
     (Inr ''Sorry, I couldn't process your request.'', [])"
  using callChatAPI_empty_response [of 200 "Str []"]
    callChatAPI_empty_response [of 200 Undefined]
  by (simp add: ok_def)

subsection \<open>One submission\<close>

text \<open>
  C4. When the guard fails (the prompt trims to nothing, there is no user, or
  \<open>loading\<close> is set), \<open>handleSubmit\<close> runs no statement: the state, and with it
  the conversation, the flag and the log of effects, is what it was.
\<close>

theorem handleSubmit_guard_noop:
  assumes "trim promptText = [] \<or> user env = None \<or> loading s"
  shows "handleSubmit_stmts env s promptText = [] \<and> handleSubmit env promptText s = s"
  using assms by (auto simp: handleSubmit_def handleSubmit_stmts_def rejected_def)

theorem handleSubmit_guard_noop_witness:
  "trim ''   '' = [] \<and>
   handleSubmit \<lparr>gateway = NetworkError, persistence = None, user = Some \<lparr>uid = ''u1''\<rparr>\<rparr>
     ''   '' initial = initial \<and>
   handleSubmit \<lparr>gateway = NetworkError, persistence = None, user = None\<rparr>
     ''hi'' initial = initial"
  using handleSubmit_guard_noop [of "''   ''"
      "\<lparr>gateway = NetworkError, persistence = None, user = Some \<lparr>uid = ''u1''\<rparr>\<rparr>" initial]
    handleSubmit_guard_noop [of "''hi''"
      "\<lparr>gateway = NetworkError, persistence = None, user = None\<rparr>" initial]
  by (simp add: trim_defs)

text \<open>
  C6. From the empty conversation in mode general, whatever the draft holds,
  submitting the Bitcoin prompt with a user, a gateway answering 200 with
  \<open>{response: "Bullish"}\<close> and an insert without error ends with that one Exchange,
  \<open>loading\<close> false and an empty draft.
\<close>

theorem handleSubmit_bullish:
  "messages (handleSubmit
      \<lparr>gateway = HttpResponse 200 (JsonObject (Str ''Bullish'')), persistence = None,
       user = Some usr\<rparr>
      ''What's the current market sentiment for Bitcoin?'' (initial\<lparr>query_st := d\<rparr>))
     = [\<lparr>query = ''What's the current market sentiment for Bitcoin?'',
          response = ''Bullish''\<rparr>] \<and>
   loading (handleSubmit
      \<lparr>gateway = HttpResponse 200 (JsonObject (Str ''Bullish'')), persistence = None,
       user = Some usr\<rparr>
      ''What's the current market sentiment for Bitcoin?'' (initial\<lparr>query_st := d\<rparr>))
     = False \<and>
   query_st (handleSubmit
      \<lparr>gateway = HttpResponse 200 (JsonObject (Str ''Bullish'')), persistence = None,
       user = Some usr\<rparr>
      ''What's the current market sentiment for Bitcoin?'' (initial\<lparr>query_st := d\<rparr>))
     = []"
  by (simp add: submit_defs setter_defs gateway_defs initial_def rejected_def trim_defs ok_def)

text \<open>
  C1. The claim is that an insert error leaves the finalized Exchange on display.
  The code does not do that. The gateway answers 200 with \<open>Bullish\<close>: while the
  insert is awaited the conversation is the one finalized Exchange, the
  placeholder \<open>...\<close> already replaced. The insert then reports an error,
  \<open>if (error) throw error\<close> enters the \<open>catch\<close> block, whose comment says it
  removes the \<open>...\<close> message, and \<open>setMessages(messages)\<close> removes the finalized
  Exchange instead: the settled conversation is empty, its length the one before
  the call and not one more. One toast is raised.
\<close>

theorem log_failure_drops_finalized_exchange:
  "messages (fst (run [Submit (Some \<lparr>uid = ''u1''\<rparr>) ''hi'',
             ChatSettled 0 (HttpResponse 200 (JsonObject (Str ''Bullish'')))] (initial, [])))
     = [\<lparr>query = ''hi'', response = ''Bullish''\<rparr>] \<and>
   messages (handleSubmit
      \<lparr>gateway = HttpResponse 200 (JsonObject (Str ''Bullish'')),
       persistence = Some InsertError, user = Some \<lparr>uid = ''u1''\<rparr>\<rparr> ''hi'' initial) = [] \<and>
   length (messages (handleSubmit
      \<lparr>gateway = HttpResponse 200 (JsonObject (Str ''Bullish'')),
       persistence = Some InsertError, user = Some \<lparr>uid = ''u1''\<rparr>\<rparr> ''hi'' initial))
     \<noteq> length (messages initial) + 1 \<and>
   notifications (handleSubmit
      \<lparr>gateway = HttpResponse 200 (JsonObject (Str ''Bullish'')),
       persistence = Some InsertError, user = Some \<lparr>uid = ''u1''\<rparr>\<rparr> ''hi'' initial) = 1"
  by (simp add: step_def submit_defs setter_defs gateway_defs initial_def rejected_def
        trim_defs ok_def drop_nth_def notifications_def)

text \<open>
  C3, as stated, fails: with status 500 and an insert without error the
  conversation is not empty afterwards and no toast was raised.
\<close>

theorem gateway_500_rolls_back_counterexample:
  "messages (handleSubmit
      \<lparr>gateway = HttpResponse 500 InvalidJson, persistence = None,
       user = Some \<lparr>uid = ''u1''\<rparr>\<rparr>
      ''What's the current market sentiment for Bitcoin?'' initial) \<noteq> [] \<and>
   notifications (handleSubmit
      \<lparr>gateway = HttpResponse 500 InvalidJson, persistence = None,
       user = Some \<lparr>uid = ''u1''\<rparr>\<rparr>
      ''What's the current market sentiment for Bitcoin?'' initial) \<noteq> 1"
  by (simp add: submit_defs setter_defs gateway_defs initial_def rejected_def trim_defs ok_def
        notifications_def)

text \<open>
  C3, amended. From an empty conversation, a valid prompt, status 500 from the
  gateway and an insert without error: the conversation ends as the one Exchange
  of the trimmed prompt and the sentence about the connection, no toast is raised,
  and \<open>loading\<close> is false.
\<close>

theorem gateway_500_is_masked:
  assumes "messages s = []" and "\<not> rejected s (user env) promptText"
    and "gateway env = HttpResponse 500 body" and "persistence env = None"
  shows "messages (handleSubmit env promptText s) =
           [\<lparr>query = trim promptText,
             response = ''Sorry, there was an error connecting to the assistant. Please try again later.''\<rparr>] \<and>
         notifications (handleSubmit env promptText s) = notifications s \<and>
         loading (handleSubmit env promptText s) = False"
  using assms
  by (auto simp: submit_defs setter_defs rejected_def notifications_def gateway_defs ok_def)

theorem gateway_500_is_masked_witness:
  "messages initial = [] \<and> \<not> rejected initial (Some \<lparr>uid = ''u1''\<rparr>) '' hi '' \<and>
   messages (handleSubmit
      \<lparr>gateway = HttpResponse 500 JsonNull, persistence = None,
       user = Some \<lparr>uid = ''u1''\<rparr>\<rparr> '' hi '' initial) =
     [\<lparr>query = ''hi'',
       response = ''Sorry, there was an error connecting to the assistant. Please try again later.''\<rparr>] \<and>
   notifications (handleSubmit
      \<lparr>gateway = HttpResponse 500 JsonNull, persistence = None,
       user = Some \<lparr>uid = ''u1''\<rparr>\<rparr> '' hi '' initial) = 0"
  using gateway_500_is_masked [where s = initial and promptText = "'' hi ''"
      and env = "\<lparr>gateway = HttpResponse 500 JsonNull, persistence = None,
        user = Some \<lparr>uid = ''u1''\<rparr>\<rparr>" and body = JsonNull]
  by (simp add: rejected_def trim_defs initial_def notifications_def)

text \<open>
  C5. The claim is that every accepted submission settles with exactly one more
  Exchange, an insert error included. The code does not do that on an insert
  error: from a conversation of one Exchange, with \<open>fetch\<close> rejecting and the
  insert reporting an error, the submission settles on the conversation it
  started from, the Exchange finalized with the sentence about the connection
  removed again by the \<open>catch\<close> block.
\<close>

theorem log_failure_appends_nothing:
  "messages (handleSubmit
      \<lparr>gateway = NetworkError, persistence = Some InsertError,
       user = Some \<lparr>uid = ''u1''\<rparr>\<rparr> ''hello''
      (initial\<lparr>messages := [\<lparr>query = ''hi'', response = ''Bullish''\<rparr>]\<rparr>))
     = [\<lparr>query = ''hi'', response = ''Bullish''\<rparr>] \<and>
   length (messages (handleSubmit
      \<lparr>gateway = NetworkError, persistence = Some InsertError,
       user = Some \<lparr>uid = ''u1''\<rparr>\<rparr> ''hello''
      (initial\<lparr>messages := [\<lparr>query = ''hi'', response = ''Bullish''\<rparr>]\<rparr>)))
     \<noteq> length (messages (initial\<lparr>messages := [\<lparr>query = ''hi'', response = ''Bullish''\<rparr>]\<rparr>)) + 1"
  by (simp add: submit_defs setter_defs gateway_defs initial_def rejected_def trim_defs)

text \<open>
  C10. When an accepted submission ends in the \<open>catch\<close> block (the insert reports
  an error), the draft is empty afterwards, so it is not the submitted text; the
  conversation is back to what it was and one toast was raised.
\<close>

theorem rollback_leaves_draft_empty:
  assumes "\<not> rejected s (user env) promptText" and "persistence env = Some e"
  shows "query_st (handleSubmit env promptText s) = [] \<and>
         query_st (handleSubmit env promptText s) \<noteq> promptText \<and>
         messages (handleSubmit env promptText s) = messages s \<and>
         notifications (handleSubmit env promptText s) = notifications s + 1"
  using assms
  by (cases rule: callChatAPI_cases [of "gateway env"])
     (auto simp: submit_defs setter_defs rejected_def notifications_def trim_defs)

theorem rollback_leaves_draft_empty_witness:
  "\<not> rejected (initial\<lparr>query_st := ''draft''\<rparr>) (Some \<lparr>uid = ''u1''\<rparr>) ''draft'' \<and>
   query_st (handleSubmit
      \<lparr>gateway = HttpResponse 200 (JsonObject (Str ''Bullish'')),
       persistence = Some InsertError, user = Some \<lparr>uid = ''u1''\<rparr>\<rparr>
      ''draft'' (initial\<lparr>query_st := ''draft''\<rparr>)) = []"
  using rollback_leaves_draft_empty [where s = "initial\<lparr>query_st := ''draft''\<rparr>"
      and promptText = "''draft''"
      and env = "\<lparr>gateway = HttpResponse 200 (JsonObject (Str ''Bullish'')),
        persistence = Some InsertError, user = Some \<lparr>uid = ''u1''\<rparr>\<rparr>" and e = InsertError]
  by (simp add: rejected_def trim_defs initial_def)

subsection \<open>Mode switch\<close>

text \<open>
  C7. \<open>handleAssistantChange\<close> changes the field \<open>assistantType\<close> and nothing
  else: draft, flag, conversation and effects stay, and so do the submissions in
  flight. A switch while a submission waits for the gateway, or for the insert,
  leaves the settled state what it would have been, up to the mode itself.
\<close>

theorem handleAssistantChange_frame:
  "handleAssistantChange v s = s\<lparr>assistantType := v\<rparr> \<and>
   messages (handleAssistantChange v s) = messages s \<and>
   effects (handleAssistantChange v s) = effects s \<and>
   step (ChangeAssistant v) (s, fls) = (handleAssistantChange v s, fls) \<and>
   fst (run [Submit u promptText, ChangeAssistant v, ChatSettled 0 result,
             InsertSettled 0 error] (s, [])) =
     handleAssistantChange v
       (fst (run [Submit u promptText, ChatSettled 0 result, InsertSettled 0 error] (s, []))) \<and>
   fst (run [Submit u promptText, ChatSettled 0 result, ChangeAssistant v,
             InsertSettled 0 error] (s, [])) =
     handleAssistantChange v
       (fst (run [Submit u promptText, ChatSettled 0 result, InsertSettled 0 error] (s, [])))"
  by (cases rule: callChatAPI_cases [of result])
     (auto simp: handleAssistantChange_def step_def submit_defs setter_defs drop_nth_def
        split: option.splits)

subsection \<open>No Exchange stays pending\<close>

lemma inv_initial: "inv (initial, [])"
  by (simp add: inv_def initial_def quiet_def)

lemma quiet_snoc: "quiet (ms @ [m]) = (quiet ms \<and> response m \<noteq> ''...'')"
  by (auto simp: quiet_def pending_def)

lemma inv_safe: "inv c \<Longrightarrow> loading (fst c) \<or> quiet (messages (fst c))"
  by (auto simp: inv_def)

lemma inv_step:
  assumes "inv c" and "\<not> answers_dots e"
  shows "inv (step e c)"
proof (cases c)
  case (Pair s fls)
  from assms(1) Pair consider
      (idle) "fls = []" "\<not> loading s" "quiet (messages s)"
    | (flying) f where "fls = [f]" "loading s" "flight_ok s f"
    by (auto simp: inv_def)
  then show ?thesis
  proof cases
    case idle
    then show ?thesis using Pair
      by (cases e)
         (auto simp: inv_def step_def rejected_def handleSubmit_start_def
            handleAssistantChange_def setter_defs split: option.splits)
  next
    case flying
    show ?thesis
    proof (cases e)
      case (ChatSettled i result)
      then show ?thesis using flying Pair assms(2)
        by (cases rule: callChatAPI_cases [of result]; cases f; cases i)
           (auto simp: inv_def step_def handleSubmit_afterChat_def setter_defs quiet_snoc)
    next
      case (InsertSettled i error)
      then show ?thesis using flying Pair
        by (cases f; cases i; cases error)
           (auto simp: inv_def step_def handleSubmit_afterInsert_def handleSubmit_catch_def
              handleSubmit_finally_def setter_defs drop_nth_def)
    next
      case (Submit u promptText)
      then show ?thesis using flying Pair
        by (cases f) (auto simp: inv_def step_def rejected_def)
    next
      case (ChangeQuery q)
      then show ?thesis using flying Pair
        by (cases f) (auto simp: inv_def step_def setter_defs)
    next
      case (ChangeAssistant v)
      then show ?thesis using flying Pair
        by (cases f) (auto simp: inv_def step_def handleAssistantChange_def setter_defs)
    qed
  qed
qed

lemma inv_visited:
  assumes "inv c" and "\<not> answers_dots e"
    and "s' \<in> set (visited (fst (react e c)) (fst c))"
  shows "loading s' \<or> quiet (messages s')"
proof (cases c)
  case (Pair s fls)
  from assms(1) Pair consider
      (idle) "fls = []" "\<not> loading s" "quiet (messages s)"
    | (flying) f where "fls = [f]" "loading s" "flight_ok s f"
    by (auto simp: inv_def)
  then show ?thesis
  proof cases
    case idle
    then show ?thesis using Pair assms(3)
      by (cases e)
         (auto simp: rejected_def handleSubmit_start_def
            handleAssistantChange_def setter_defs split: option.splits if_splits)
  next
    case flying
    show ?thesis
    proof (cases e)
      case (ChatSettled i result)
      then show ?thesis using flying Pair assms(2,3)
        by (cases rule: callChatAPI_cases [of result]; cases f; cases i)
           (auto simp: handleSubmit_afterChat_def setter_defs)
    next
      case (InsertSettled i error)
      then show ?thesis using flying Pair assms(3)
        by (cases f; cases i; cases error)
           (auto simp: handleSubmit_afterInsert_def handleSubmit_catch_def
              handleSubmit_finally_def setter_defs)
    next
      case (Submit u promptText)
      then show ?thesis using flying Pair assms(3)
        by (auto simp: rejected_def)
    next
      case (ChangeQuery q)
      then show ?thesis using flying Pair assms(3)
        by (auto simp: setter_defs)
    next
      case (ChangeAssistant v)
      then show ?thesis using flying Pair assms(3)
        by (auto simp: handleAssistantChange_def setter_defs)
    qed
  qed
qed

lemma observed_safe:
  assumes "inv c" and "\<not> list_ex answers_dots evs" and "s \<in> set (observed evs c)"
  shows "loading s \<or> quiet (messages s)"
  using assms
proof (induction evs arbitrary: c)
  case Nil
  then show ?case by (auto dest: inv_safe)
next
  case (Cons e es)
  from Cons.prems(2) have e: "\<not> answers_dots e" and es: "\<not> list_ex answers_dots es"
    by simp_all
  from Cons.prems(3) consider "s = fst c"
    | "s \<in> set (visited (fst (react e c)) (fst c))"
    | "s \<in> set (observed es (step e c))"
    by auto
  then show ?case
  proof cases
    case 1
    then show ?thesis using Cons.prems(1) by (auto dest: inv_safe)
  next
    case 2
    then show ?thesis using inv_visited [OF Cons.prems(1) e] by blast
  next
    case 3
    then show ?thesis using Cons.IH [OF inv_step [OF Cons.prems(1) e] es] by blast
  qed
qed

text \<open>
  C8, as stated, fails: the gateway answers 200 with the text \<open>...\<close> itself, the
  insert reports no error, and the page settles, \<open>loading\<close> false, on an Exchange
  whose response is \<open>...\<close>.
\<close>

theorem idle_has_no_dots_counterexample:
  "fst (run [Submit (Some \<lparr>uid = ''u1''\<rparr>) ''hi'',
             ChatSettled 0 (HttpResponse 200 (JsonObject (Str ''...''))),
             InsertSettled 0 None] (initial, []))
     \<in> set (observed [Submit (Some \<lparr>uid = ''u1''\<rparr>) ''hi'',
             ChatSettled 0 (HttpResponse 200 (JsonObject (Str ''...''))),
             InsertSettled 0 None] (initial, [])) \<and>
   loading (fst (run [Submit (Some \<lparr>uid = ''u1''\<rparr>) ''hi'',
             ChatSettled 0 (HttpResponse 200 (JsonObject (Str ''...''))),
             InsertSettled 0 None] (initial, []))) = False \<and>
   messages (fst (run [Submit (Some \<lparr>uid = ''u1''\<rparr>) ''hi'',
             ChatSettled 0 (HttpResponse 200 (JsonObject (Str ''...''))),
             InsertSettled 0 None] (initial, []))) =
     [\<lparr>query = ''hi'', response = ''...''\<rparr>]"
  by (simp add: step_def submit_defs setter_defs gateway_defs initial_def rejected_def
        trim_defs ok_def drop_nth_def)

text \<open>
  C8, amended. As long as the gateway call never resolves with the text \<open>...\<close>
  itself, no state the page goes through from its initial one, under any sequence
  of submissions, edits of the draft, mode switches and settlings, has \<open>loading\<close>
  false and an Exchange whose response is \<open>...\<close>.
\<close>

theorem idle_has_no_pending:
  assumes "\<not> list_ex answers_dots evs"
    and "s \<in> set (observed evs (initial, []))"
    and "\<not> loading s"
  shows "\<not> list_ex pending (messages s)"
  using observed_safe [OF inv_initial assms(1,2)] assms(3) by (simp add: quiet_def)

theorem idle_has_no_pending_witness:
  "\<not> list_ex answers_dots [Submit (Some \<lparr>uid = ''u1''\<rparr>) ''hi'',
        ChatSettled 0 (HttpResponse 200 (JsonObject (Str ''Bullish''))),
        InsertSettled 0 None] \<and>
   fst (run [Submit (Some \<lparr>uid = ''u1''\<rparr>) ''hi'',
        ChatSettled 0 (HttpResponse 200 (JsonObject (Str ''Bullish''))),
        InsertSettled 0 None] (initial, []))
     \<in> set (observed [Submit (Some \<lparr>uid = ''u1''\<rparr>) ''hi'',
        ChatSettled 0 (HttpResponse 200 (JsonObject (Str ''Bullish''))),
        InsertSettled 0 None] (initial, [])) \<and>
   \<not> loading (fst (run [Submit (Some \<lparr>uid = ''u1''\<rparr>) ''hi'',
        ChatSettled 0 (HttpResponse 200 (JsonObject (Str ''Bullish''))),
        InsertSettled 0 None] (initial, []))) \<and>
   \<not> list_ex pending (messages (fst (run [Submit (Some \<lparr>uid = ''u1''\<rparr>) ''hi'',
        ChatSettled 0 (HttpResponse 200 (JsonObject (Str ''Bullish''))),
        InsertSettled 0 None] (initial, []))))"
  using idle_has_no_pending [where evs = "[Submit (Some \<lparr>uid = ''u1''\<rparr>) ''hi'',
        ChatSettled 0 (HttpResponse 200 (JsonObject (Str ''Bullish''))),
        InsertSettled 0 None]"
      and s = "fst (run [Submit (Some \<lparr>uid = ''u1''\<rparr>) ''hi'',
        ChatSettled 0 (HttpResponse 200 (JsonObject (Str ''Bullish''))),
        InsertSettled 0 None] (initial, []))"]
  by (simp add: step_def submit_defs setter_defs gateway_defs initial_def rejected_def
        trim_defs ok_def drop_nth_def)

end
